theory Spec2Isabelle
  imports Complex_Main "HOL-Library.AList" "HOL-Library.Log_Nat"
begin

section \<open>Rich-text comment documents\<close>

text \<open>
  A Jira document node (\<^verbatim>\<open>Version3Models.Document\<close>) as the flattener reads it: an
  optional ordered list of child nodes (\<^verbatim>\<open>content\<close>) and an optional text payload
  (\<^verbatim>\<open>text\<close>, here \<open>text'\<close>). Absence (\<^verbatim>\<open>undefined\<close> or \<^verbatim>\<open>null\<close>) is \<open>None\<close>.
  Being a datatype, every node tree is finite and acyclic.
\<close>

datatype document = Document (content: "document list option") (text': "string option")

text \<open>
  \<^verbatim>\<open>
  const extractTextFromJiraDocumentNode = (documentNode) => {
    const contentsText = (documentNode.content ?? [])
      .map(extractTextFromJiraDocumentNode)
      .reduce((accumulatedText, text) => accumulatedText.concat(text), '');
    const innerText = documentNode.text ?? '';
    return contentsText + innerText;
  }
  \<close>
  The function is the same, character for character, in both entry points.
\<close>

fun extractTextFromJiraDocumentNode :: "document \<Rightarrow> string" where
  "extractTextFromJiraDocumentNode (Document c t) =
     (let contentsText =
            foldl (\<lambda>accumulatedText text. accumulatedText @ text) []
              (map extractTextFromJiraDocumentNode (case c of None \<Rightarrow> [] | Some cs \<Rightarrow> cs));
          innerText = (case t of None \<Rightarrow> [] | Some s \<Rightarrow> s)
      in contentsText @ innerText)"

section \<open>Numbers of the language\<close>

text \<open>
  A JavaScript \<^verbatim>\<open>number\<close> is an IEEE 754 double: a finite value, which is a rational
  number, one of the two infinities, or \<^verbatim>\<open>NaN\<close>. The two zeros are one value here: the
  pipeline only adds numbers, divides them by 3600 and prints them, and \<^verbatim>\<open>-0\<close> prints
  as \<^verbatim>\<open>0\<close>.
\<close>

datatype number = Finite rat | PosInfinity | NegInfinity | NaN

definition pow2 :: "int \<Rightarrow> rat" where
  "pow2 k = (if 0 \<le> k then 2 ^ nat k else 1 / 2 ^ nat (- k))"

text \<open>
  The exponent \<open>e\<close> with \<open>2 ^ e \<le> a < 2 ^ (e + 1)\<close>, for a positive \<open>a\<close>, from the
  number of bits of an integer.
\<close>

definition floorLog2 :: "rat \<Rightarrow> int" where
  "floorLog2 a = (if 1 \<le> a then bitlen \<lfloor>a\<rfloor> - 1 else - bitlen (\<lceil>1 / a\<rceil> - 1))"

text \<open>Rounding to the nearest integer, a tie to the even one.\<close>

definition roundHalfEven :: "rat \<Rightarrow> int" where
  "roundHalfEven m =
     (if m - of_int \<lfloor>m\<rfloor> < 1 / 2 then \<lfloor>m\<rfloor>
      else if 1 / 2 < m - of_int \<lfloor>m\<rfloor> then \<lfloor>m\<rfloor> + 1
      else if even \<lfloor>m\<rfloor> then \<lfloor>m\<rfloor> else \<lfloor>m\<rfloor> + 1)"

text \<open>
  The double nearest to a rational (round to nearest, ties to even). A positive \<open>a\<close> is
  rounded to a multiple of \<open>2 ^ q\<close>, the unit in the last place: 53 significant bits, and
  \<open>q\<close> is at least \<open>-1074\<close>. A result of magnitude \<open>2 ^ 1024\<close> or more is an infinity.
\<close>

definition roundAt :: "int \<Rightarrow> rat \<Rightarrow> rat" where
  "roundAt q a = of_int (roundHalfEven (a / pow2 q)) * pow2 q"

definition roundMagnitude :: "rat \<Rightarrow> rat" where
  "roundMagnitude a = roundAt (max (floorLog2 a - 52) (- 1074)) a"

definition signedNumber :: "bool \<Rightarrow> rat \<Rightarrow> number" where
  "signedNumber positive r =
     (if pow2 1024 \<le> r then (if positive then PosInfinity else NegInfinity)
      else Finite (if positive then r else - r))"

definition roundToDouble :: "rat \<Rightarrow> number" where
  "roundToDouble x = (if x = 0 then Finite 0 else signedNumber (0 < x) (roundMagnitude \<bar>x\<bar>))"

text \<open>\<^verbatim>\<open>a + b\<close> on numbers.\<close>

fun numberAdd :: "number \<Rightarrow> number \<Rightarrow> number" where
  "numberAdd (Finite a) (Finite b) = roundToDouble (a + b)"
| "numberAdd NaN b = NaN"
| "numberAdd a NaN = NaN"
| "numberAdd PosInfinity NegInfinity = NaN"
| "numberAdd NegInfinity PosInfinity = NaN"
| "numberAdd PosInfinity b = PosInfinity"
| "numberAdd a PosInfinity = PosInfinity"
| "numberAdd NegInfinity b = NegInfinity"
| "numberAdd a NegInfinity = NegInfinity"

text \<open>\<^verbatim>\<open>a / 3600\<close> on numbers.\<close>

fun divideBy3600 :: "number \<Rightarrow> number" where
  "divideBy3600 (Finite a) = roundToDouble (a / 3600)"
| "divideBy3600 a = a"

text \<open>The number that an integer of the service's JSON is read as.\<close>

definition numberOfInt :: "int \<Rightarrow> number" where
  "numberOfInt s = roundToDouble (of_int s)"

section \<open>Data exchanged with the issue tracker\<close>

text \<open>
  The two entry points are \<^verbatim>\<open>src/index.ts\<close> (the command-line variant, function
  \<^verbatim>\<open>getMyWorklogsSince\<close>, which prints delimited text) and the second source file (the
  document variant, function \<^verbatim>\<open>getMyWorklogsForPeriod\<close>, which returns the row matrix
  that is rendered into the printable document).
\<close>

datatype WorklogMode = Detailed | DailySummary

datatype error =
    RemoteOperationFailure  \<comment> \<open>a promise of the Jira client rejects\<close>
  | TypeError               \<comment> \<open>a property is read from \<^verbatim>\<open>undefined\<close>\<close>

text \<open>An issue of the search result; \<^verbatim>\<open>id\<close> is written \<open>id'\<close>.\<close>

record issue =
  id' :: string
  key :: string

record user_details =
  emailAddress :: "string option"

text \<open>
  A worklog record as the service returns it. \<^verbatim>\<open>started\<close> is read through the
  non-null assertion \<^verbatim>\<open>worklog.started!\<close>, and is a string here.
\<close>

record worklog =
  author :: "user_details option"
  started :: string
  issueId :: "string option"
  timeSpentSeconds :: "int option"
  comment :: "document option"

record search_request =
  jql :: string
  fields' :: "string list"
  maxResults :: nat

record search_response =
  response_issues :: "issue list option"

record worklog_request =
  issueIdOrKey :: string
  startedAfter :: int

record worklog_response =
  worklogs :: "worklog list"

text \<open>
  A JavaScript \<^verbatim>\<open>Date\<close> argument, through the two observations the pipeline makes of
  it: \<^verbatim>\<open>date.toJSON()\<close> and \<^verbatim>\<open>+date\<close> (milliseconds since the epoch).
\<close>

record js_date =
  toJSON :: string
  valueOf :: int

text \<open>
  Everything outside the pipeline: the configured e-mail address, the two operations of
  the Jira client (\<open>None\<close> when the promise rejects), and two built-ins of the language,
  \<^verbatim>\<open>+new Date(s)\<close> on a timestamp string and \<^verbatim>\<open>Number.prototype.toString\<close>.
  Timestamps of the service are well-formed, so \<open>parseDate\<close> has no \<^verbatim>\<open>NaN\<close>.
\<close>

record env =
  email :: string
  searchForIssuesUsingJql :: "search_request \<Rightarrow> search_response option"
  getIssueWorklog :: "worklog_request \<Rightarrow> worklog_response option"
  parseDate :: "string \<Rightarrow> int"
  numberToString :: "number \<Rightarrow> string"

text \<open>A normalized entry; \<^verbatim>\<open>comment\<close> is \<^verbatim>\<open>string | undefined\<close> in the source.\<close>

record worklog_entry =
  started' :: string
  issue :: string
  timeSpentInHours :: number
  comment' :: "string option"

text \<open>The accumulator of one day: \<^verbatim>\<open>{timeSpentInHours: number, issues: string[]}\<close>.\<close>

record daily_worklog =
  dailyTimeSpentInHours :: number
  issues :: "string list"

text \<open>A cell of a row: \<^verbatim>\<open>string | number\<close>, or \<^verbatim>\<open>undefined\<close> for an absent comment.\<close>

datatype cell = Str string | Num number | Undefined

text \<open>
  What the command-line variant writes: a literal line, or the delimited text of a row
  matrix (\<^verbatim>\<open>console.log(stringify(csvEntries))\<close>; the encoder is external and its
  argument is recorded as it is).
\<close>

datatype console_output = Line string | Csv "cell list list"

section \<open>String helpers of the language\<close>

text \<open>\<^verbatim>\<open>s.split('T')[0]\<close>: the part before the first \<^verbatim>\<open>T\<close>, all of \<open>s\<close> without one.\<close>

definition datePart :: "string \<Rightarrow> string" where
  "datePart s = takeWhile (\<lambda>c. c \<noteq> CHR ''T'') s"

text \<open>\<^verbatim>\<open>s.replace('.', ',')\<close> replaces the first occurrence only.\<close>

fun replaceFirst :: "char \<Rightarrow> char \<Rightarrow> string \<Rightarrow> string" where
  "replaceFirst a b [] = []"
| "replaceFirst a b (c # cs) = (if c = a then b # cs else c # replaceFirst a b cs)"

text \<open>\<^verbatim>\<open>xs.join(sep)\<close>\<close>

fun join :: "string \<Rightarrow> string list \<Rightarrow> string" where
  "join sep [] = []"
| "join sep [x] = x"
| "join sep (x # y # ys) = x @ sep @ join sep (y # ys)"

definition quoted :: "string \<Rightarrow> string" where
  "quoted s = [CHR 0x27] @ s @ [CHR 0x27]"

section \<open>Fetching and normalization\<close>

text \<open>
  \<^verbatim>\<open>
  const issueByIdMap = new Map<string, Version3Models.Issue>();
  issuesSearchResponse.issues.forEach(issue => issueByIdMap.set(issue.id, issue));
  \<close>
\<close>

definition issueByIdMap :: "issue list \<Rightarrow> (string \<rightharpoonup> issue)" where
  "issueByIdMap is = fold (\<lambda>i m. m(id' i \<mapsto> i)) is Map.empty"

text \<open>
  \<^verbatim>\<open>
  await Promise.all(issues.map(({ key }) => promiseThrottle.add(() =>
    jiraClient.issueWorklogs.getIssueWorklog({ issueIdOrKey: key, startedAfter: +date }))))
  \<close>
  The responses come in the order of the issues, whatever the order in which the fetches
  complete; one rejected fetch rejects the whole batch. The throttle only delays.
\<close>

definition fetchWorklogsPerIssue :: "env \<Rightarrow> issue list \<Rightarrow> js_date \<Rightarrow> worklog_response list option" where
  "fetchWorklogsPerIssue e is date =
     those (map (\<lambda>i. getIssueWorklog e \<lparr>issueIdOrKey = key i, startedAfter = valueOf date\<rparr>) is)"

text \<open>\<^verbatim>\<open>worklog.author?.emailAddress === email\<close>\<close>

definition isMine :: "env \<Rightarrow> worklog \<Rightarrow> bool" where
  "isMine e w =
     ((case author w of None \<Rightarrow> None | Some a \<Rightarrow> emailAddress a) = Some (email e))"

text \<open>
  The object built for one retained record. \<^verbatim>\<open>issueByIdMap.get(worklog.issueId!)!.key\<close>
  throws a TypeError when the identifier is absent or unknown. The two variants differ in
  the comment: \<^verbatim>\<open>worklog.comment && extract(worklog.comment)\<close> in the command-line
  variant, with \<^verbatim>\<open>?? ''\<close> appended in the document variant.
\<close>

definition resolveIssue :: "(string \<rightharpoonup> issue) \<Rightarrow> worklog \<Rightarrow> issue option" where
  "resolveIssue m w = (case issueId w of None \<Rightarrow> None | Some i \<Rightarrow> m i)"

text \<open>\<^verbatim>\<open>(worklog.timeSpentSeconds ?? 0) / 3600\<close>\<close>

definition hoursOf :: "worklog \<Rightarrow> number" where
  "hoursOf w =
     divideBy3600 (case timeSpentSeconds w of None \<Rightarrow> Finite 0 | Some s \<Rightarrow> numberOfInt s)"

definition entrySince :: "(string \<rightharpoonup> issue) \<Rightarrow> worklog \<Rightarrow> error + worklog_entry" where
  "entrySince m w =
     (case resolveIssue m w of
        None \<Rightarrow> Inl TypeError
      | Some i \<Rightarrow> Inr \<lparr>started' = started w, issue = key i, timeSpentInHours = hoursOf w,
                      comment' = (case comment w of None \<Rightarrow> None
                                  | Some c \<Rightarrow> Some (extractTextFromJiraDocumentNode c))\<rparr>)"

definition entryForPeriod :: "(string \<rightharpoonup> issue) \<Rightarrow> worklog \<Rightarrow> error + worklog_entry" where
  "entryForPeriod m w =
     (case resolveIssue m w of
        None \<Rightarrow> Inl TypeError
      | Some i \<Rightarrow> Inr \<lparr>started' = started w, issue = key i, timeSpentInHours = hoursOf w,
                      comment' = Some (case comment w of None \<Rightarrow> []
                                       | Some c \<Rightarrow> extractTextFromJiraDocumentNode c)\<rparr>)"

text \<open>Mapping a throwing function over a list: the first exception ends it.\<close>

fun mapM :: "('a \<Rightarrow> error + 'b) \<Rightarrow> 'a list \<Rightarrow> error + 'b list" where
  "mapM f [] = Inr []"
| "mapM f (x # xs) =
     (case f x of
        Inl err \<Rightarrow> Inl err
      | Inr y \<Rightarrow> (case mapM f xs of Inl err \<Rightarrow> Inl err | Inr ys \<Rightarrow> Inr (y # ys)))"

text \<open>
  \<^verbatim>\<open>
  worklogsPerIssue.flatMap(worklogResponse => worklogResponse.worklogs
      .filter((worklog) => worklog.author?.emailAddress === email)
      .map((worklog) => ({ ... })))
    .sort((a, b) => +new Date(a.started) - +new Date(b.started))
  \<close>
  \<^verbatim>\<open>Array.prototype.sort\<close> with this comparator is a stable sort by the parsed
  timestamp.
\<close>

definition normalizeWorklogs ::
  "env \<Rightarrow> ((string \<rightharpoonup> issue) \<Rightarrow> worklog \<Rightarrow> error + worklog_entry) \<Rightarrow> issue list
     \<Rightarrow> worklog_response list \<Rightarrow> error + worklog_entry list" where
  "normalizeWorklogs e entry is worklogsPerIssue =
     (case mapM (\<lambda>worklogResponse.
                   mapM (entry (issueByIdMap is)) (filter (isMine e) (worklogs worklogResponse)))
             worklogsPerIssue of
        Inl err \<Rightarrow> Inl err
      | Inr ess \<Rightarrow> Inr (sort_key (\<lambda>w. parseDate e (started' w)) (concat ess)))"

section \<open>Aggregation\<close>

definition commaFormat :: "env \<Rightarrow> number \<Rightarrow> string" where
  "commaFormat e h = replaceFirst (CHR ''.'') (CHR '','') (numberToString e h)"

definition commentCell :: "string option \<Rightarrow> cell" where
  "commentCell c = (case c of None \<Rightarrow> Undefined | Some s \<Rightarrow> Str s)"

text \<open>Detailed mode: the rows \<^verbatim>\<open>csvEntries\<close>, the same expression in both variants.\<close>

definition detailedEntries :: "env \<Rightarrow> worklog_entry list \<Rightarrow> cell list list" where
  "detailedEntries e ws =
     map (\<lambda>w. [Str (datePart (started' w)), Str (issue w),
               Str (commaFormat e (timeSpentInHours w)), commentCell (comment' w)]) ws"

text \<open>
  Daily-summary mode. The \<^verbatim>\<open>Map\<close> of the reduction keeps its keys in insertion order
  and is an association list here; \<^verbatim>\<open>set\<close> on a present key keeps the key's place.
  \<^verbatim>\<open>
  (dailyWorklogs, worklog) => {
    const day = worklog.started.split('T')[0];
    if (!dailyWorklogs.has(day)) {
      dailyWorklogs.set(day, {timeSpentInHours: 0, issues: []});
    }
    const dailyWorklog = dailyWorklogs.get(day)!;
    dailyWorklog.timeSpentInHours += worklog.timeSpentInHours;
    if (!dailyWorklog.issues.includes(worklog.issue)) {
      dailyWorklog.issues.push(worklog.issue);
    }
    return dailyWorklogs;
  }
  \<close>
  The object of the day is mutated in place, which is an update of its key. The lookup
  after the \<^verbatim>\<open>set\<close> always succeeds (lemma \<open>dailyStep_lookup\<close> below).
\<close>

definition addToDay :: "daily_worklog \<Rightarrow> worklog_entry \<Rightarrow> daily_worklog" where
  "addToDay dailyWorklog w =
     \<lparr>dailyTimeSpentInHours = numberAdd (dailyTimeSpentInHours dailyWorklog) (timeSpentInHours w),
      issues = (if issue w \<in> set (issues dailyWorklog) then issues dailyWorklog
                else issues dailyWorklog @ [issue w])\<rparr>"

definition ensureDay :: "(string \<times> daily_worklog) list \<Rightarrow> string \<Rightarrow> (string \<times> daily_worklog) list" where
  "ensureDay dailyWorklogs day =
     (if map_of dailyWorklogs day = None
      then AList.update day \<lparr>dailyTimeSpentInHours = Finite 0, issues = []\<rparr> dailyWorklogs
      else dailyWorklogs)"

definition dailyStep :: "(string \<times> daily_worklog) list \<Rightarrow> worklog_entry \<Rightarrow> (string \<times> daily_worklog) list" where
  "dailyStep dailyWorklogs w =
     (let day = datePart (started' w);
          dailyWorklogs1 = ensureDay dailyWorklogs day
      in case map_of dailyWorklogs1 day of
           None \<Rightarrow> dailyWorklogs1
         | Some dailyWorklog \<Rightarrow> AList.update day (addToDay dailyWorklog w) dailyWorklogs1)"

definition dailyWorklogsOf :: "worklog_entry list \<Rightarrow> (string \<times> daily_worklog) list" where
  "dailyWorklogsOf ws = foldl dailyStep [] ws"

definition dailyEntries :: "worklog_entry list \<Rightarrow> cell list list" where
  "dailyEntries ws =
     map (\<lambda>(day, dailySummary).
            [Str day, Num (dailyTimeSpentInHours dailySummary), Str (join '', '' (issues dailySummary))])
         (dailyWorklogsOf ws)"

section \<open>The command-line entry point\<close>

definition sinceRequest :: "js_date \<Rightarrow> search_request" where
  "sinceRequest date =
     \<lparr>jql = ''worklogDate >= '' @ quoted (datePart (toJSON date))
              @ '' AND worklogAuthor = currentUser()'',
      fields' = [''id''], maxResults = 100\<rparr>"

definition printSince :: "env \<Rightarrow> WorklogMode \<Rightarrow> worklog_entry list \<Rightarrow> console_output list" where
  "printSince e mode ws =
     (case mode of
        Detailed \<Rightarrow> [Line ''Date,Issue,Hours spent,Comment'', Csv (detailedEntries e ws)]
      | DailySummary \<Rightarrow> [Line ''Date,Hours,Issues'', Csv (dailyEntries ws)])"

text \<open>
  The value of \<^verbatim>\<open>worklogs\<close> in \<^verbatim>\<open>getMyWorklogsSince\<close>: the search, the early return
  when the response has no \<^verbatim>\<open>issues\<close> (\<open>Inr None\<close>), the fetches, and normalization.
\<close>

definition worklogsSince :: "env \<Rightarrow> js_date \<Rightarrow> error + worklog_entry list option" where
  "worklogsSince e date =
     (case searchForIssuesUsingJql e (sinceRequest date) of
        None \<Rightarrow> Inl RemoteOperationFailure
      | Some issuesSearchResponse \<Rightarrow>
          (case response_issues issuesSearchResponse of
             None \<Rightarrow> Inr None
           | Some is \<Rightarrow>
               (case fetchWorklogsPerIssue e is date of
                  None \<Rightarrow> Inl RemoteOperationFailure
                | Some worklogsPerIssue \<Rightarrow>
                    (case normalizeWorklogs e entrySince is worklogsPerIssue of
                       Inl err \<Rightarrow> Inl err
                     | Inr ws \<Rightarrow> Inr (Some ws)))))"

text \<open>
  \<^verbatim>\<open>getMyWorklogsSince(date, mode)\<close>: the result is what has been written to the
  console when the promise resolves, or the error it rejects with.
\<close>

definition getMyWorklogsSince :: "env \<Rightarrow> js_date \<Rightarrow> WorklogMode \<Rightarrow> error + console_output list" where
  "getMyWorklogsSince e date mode =
     (case worklogsSince e date of
        Inl err \<Rightarrow> Inl err
      | Inr None \<Rightarrow> Inr []
      | Inr (Some ws) \<Rightarrow> Inr (printSince e mode ws))"

section \<open>The document entry point\<close>

definition periodRequest :: "js_date \<Rightarrow> js_date \<Rightarrow> search_request" where
  "periodRequest fromDate toDate =
     \<lparr>jql = ''worklogDate >= '' @ quoted (datePart (toJSON fromDate))
              @ '' AND worklogDate <= '' @ quoted (datePart (toJSON toDate))
              @ '' AND worklogAuthor = currentUser()'',
      fields' = [''id''], maxResults = 100\<rparr>"

text \<open>
  \<^verbatim>\<open>worklogs.reduce((sum, worklog) => sum + worklog.timeSpentInHours, 0)
      .toString().replace('.', ',')\<close>
\<close>

definition hoursTotal :: "worklog_entry list \<Rightarrow> number" where
  "hoursTotal ws = foldl (\<lambda>sum w. numberAdd sum (timeSpentInHours w)) (Finite 0) ws"

definition hoursSum :: "env \<Rightarrow> worklog_entry list \<Rightarrow> string" where
  "hoursSum e ws = commaFormat e (hoursTotal ws)"

definition tableForPeriod :: "env \<Rightarrow> WorklogMode \<Rightarrow> worklog_entry list \<Rightarrow> cell list list" where
  "tableForPeriod e mode ws =
     (case mode of
        Detailed \<Rightarrow>
          [[Str ''Date'', Str ''Issue'', Str ''Hours spent'', Str ''Comment'']]
          @ detailedEntries e ws
          @ [[Str ''Total'', Str [], Str (hoursSum e ws), Str []]]
      | DailySummary \<Rightarrow>
          [[Str ''Date'', Str ''Hours spent'', Str ''Issues'']]
          @ dailyEntries ws
          @ [[Str ''Total'', Str (hoursSum e ws), Str []]])"

text \<open>The value of \<^verbatim>\<open>worklogs\<close> in \<^verbatim>\<open>getMyWorklogsForPeriod\<close>.\<close>

definition worklogsForPeriod :: "env \<Rightarrow> js_date \<Rightarrow> js_date \<Rightarrow> error + worklog_entry list option" where
  "worklogsForPeriod e fromDate toDate =
     (case searchForIssuesUsingJql e (periodRequest fromDate toDate) of
        None \<Rightarrow> Inl RemoteOperationFailure
      | Some issuesSearchResponse \<Rightarrow>
          (case response_issues issuesSearchResponse of
             None \<Rightarrow> Inr None
           | Some is \<Rightarrow>
               (case fetchWorklogsPerIssue e is fromDate of
                  None \<Rightarrow> Inl RemoteOperationFailure
                | Some worklogsPerIssue \<Rightarrow>
                    (case normalizeWorklogs e entryForPeriod is worklogsPerIssue of
                       Inl err \<Rightarrow> Inl err
                     | Inr ws \<Rightarrow> Inr (Some ws)))))"

definition getMyWorklogsForPeriod ::
  "env \<Rightarrow> js_date \<Rightarrow> js_date \<Rightarrow> WorklogMode \<Rightarrow> error + cell list list" where
  "getMyWorklogsForPeriod e fromDate toDate mode =
     (case worklogsForPeriod e fromDate toDate of
        Inl err \<Rightarrow> Inl err
      | Inr None \<Rightarrow> Inr []
      | Inr (Some ws) \<Rightarrow> Inr (tableForPeriod e mode ws))"

section \<open>The report period of the document script\<close>

text \<open>
  The local-time fields of a JavaScript \<^verbatim>\<open>Date\<close>: full year, month (0 to 11), day of
  the month, and the time within the day in milliseconds. \<^verbatim>\<open>setMonth\<close> and
  \<^verbatim>\<open>setDate\<close> accept any integer and carry into the neighbouring months and years
  (the language's \<^verbatim>\<open>MakeDay\<close>); shifts of daylight saving are not modelled.
\<close>

record local_date =
  fullYear :: int
  month :: int
  dayOfMonth :: int
  timeOfDay :: int

definition isLeapYear :: "int \<Rightarrow> bool" where
  "isLeapYear y = (y mod 4 = 0 \<and> (y mod 100 \<noteq> 0 \<or> y mod 400 = 0))"

definition daysInMonth :: "int \<Rightarrow> int \<Rightarrow> int" where
  "daysInMonth y m =
     (if m = 1 then (if isLeapYear y then 29 else 28)
      else if m = 3 \<or> m = 5 \<or> m = 8 \<or> m = 10 then 30 else 31)"

definition previousMonth :: "int \<Rightarrow> int \<Rightarrow> int \<times> int" where
  "previousMonth y m = (if m = 0 then (y - 1, 11) else (y, m - 1))"

definition nextMonth :: "int \<Rightarrow> int \<Rightarrow> int \<times> int" where
  "nextMonth y m = (if m = 11 then (y + 1, 0) else (y, m + 1))"

function carryDays :: "int \<Rightarrow> int \<Rightarrow> int \<Rightarrow> int \<times> int \<times> int" where
  "carryDays y m d =
     (if d < 1 then
        (case previousMonth y m of (y', m') \<Rightarrow> carryDays y' m' (d + daysInMonth y' m'))
      else if d > daysInMonth y m then
        (case nextMonth y m of (y', m') \<Rightarrow> carryDays y' m' (d - daysInMonth y m))
      else (y, m, d))"
  by pat_completeness auto
termination
  by (relation "measure (\<lambda>(y, m, d). nat (if d < 1 then 33 - d else d))")
     (auto simp: daysInMonth_def previousMonth_def nextMonth_def split: if_splits)

declare carryDays.simps [simp del]

definition makeDay :: "int \<Rightarrow> int \<Rightarrow> int \<Rightarrow> int \<times> int \<times> int" where
  "makeDay y m d = carryDays (y + m div 12) (m mod 12) d"

definition getDate :: "local_date \<Rightarrow> int" where
  "getDate t = dayOfMonth t"

definition getMonth :: "local_date \<Rightarrow> int" where
  "getMonth t = month t"

definition setDate :: "local_date \<Rightarrow> int \<Rightarrow> local_date" where
  "setDate t d =
     (case makeDay (fullYear t) (month t) d of
        (y', m', d') \<Rightarrow> t\<lparr>fullYear := y', month := m', dayOfMonth := d'\<rparr>)"

definition setMonth :: "local_date \<Rightarrow> int \<Rightarrow> local_date" where
  "setMonth t m =
     (case makeDay (fullYear t) m (dayOfMonth t) of
        (y', m', d') \<Rightarrow> t\<lparr>fullYear := y', month := m', dayOfMonth := d'\<rparr>)"

text \<open>\<^verbatim>\<open>setHours(0, 0, 0, 0)\<close>\<close>

definition setHoursZero :: "local_date \<Rightarrow> local_date" where
  "setHoursZero t = t\<lparr>timeOfDay := 0\<rparr>"

text \<open>
  \<^verbatim>\<open>
  const firstDayOfCurrentMonth = new Date();
  firstDayOfCurrentMonth.setDate(1);
  firstDayOfCurrentMonth.setHours(0, 0, 0, 0);
  const firstDayOfPreviousMonth = new Date(firstDayOfCurrentMonth);
  firstDayOfPreviousMonth.setMonth(firstDayOfCurrentMonth.getMonth() - 1);
  \<close>
  The script reads the clock twice, here and for \<^verbatim>\<open>currentDate\<close>; both readings are
  the one value \<open>now\<close>.
\<close>

definition firstDayOfCurrentMonth :: "local_date \<Rightarrow> local_date" where
  "firstDayOfCurrentMonth now = setHoursZero (setDate now 1)"

definition firstDayOfPreviousMonth :: "local_date \<Rightarrow> local_date" where
  "firstDayOfPreviousMonth now =
     setMonth (firstDayOfCurrentMonth now) (getMonth (firstDayOfCurrentMonth now) - 1)"

text \<open>
  \<^verbatim>\<open>
  const getLastDayOfMonth = (date: Date) => {
    const result = new Date(date);
    result.setMonth(result.getMonth() + 1);
    result.setDate(0);
    return result;
  }
  \<close>
\<close>

definition getLastDayOfMonth :: "local_date \<Rightarrow> local_date" where
  "getLastDayOfMonth date =
     (let result = setMonth date (getMonth date + 1) in setDate result 0)"

text \<open>
  \<^verbatim>\<open>
  const reportDateStart = currentDate.getDate() > 15 ? firstDayOfCurrentMonth : firstDayOfPreviousMonth;
  const reportDateEnd = getLastDayOfMonth(reportDateStart);
  \<close>
\<close>

definition reportDateStart :: "local_date \<Rightarrow> local_date" where
  "reportDateStart now =
     (if getDate now > 15 then firstDayOfCurrentMonth now else firstDayOfPreviousMonth now)"

definition reportDateEnd :: "local_date \<Rightarrow> local_date" where
  "reportDateEnd now = getLastDayOfMonth (reportDateStart now)"

text \<open>A date of the calendar: what \<^verbatim>\<open>new Date()\<close> can return.\<close>

definition validDate :: "local_date \<Rightarrow> bool" where
  "validDate t =
     (0 \<le> month t \<and> month t \<le> 11 \<and> 1 \<le> dayOfMonth t
      \<and> dayOfMonth t \<le> daysInMonth (fullYear t) (month t)
      \<and> 0 \<le> timeOfDay t \<and> timeOfDay t < 86400000)"

section \<open>A small tracker for the examples\<close>

text \<open>
  Two issues. \<open>AB-1\<close> carries one worklog of the user and one of a colleague, whose
  issue identifier is not among the search results; \<open>AB-2\<close> carries two worklogs of the
  user on one day, without comments.
\<close>

definition exampleIssues :: "issue list" where
  "exampleIssues = [\<lparr>id' = ''10001'', key = ''AB-1''\<rparr>, \<lparr>id' = ''10002'', key = ''AB-2''\<rparr>]"

definition me :: "user_details option" where
  "me = Some \<lparr>emailAddress = Some ''me@example.org''\<rparr>"

definition exampleComment :: document where
  "exampleComment =
     Document (Some [Document (Some [Document None (Some ''fix'')]) (Some ''!'')]) None"

definition exampleWorklogs :: "string \<Rightarrow> worklog list" where
  "exampleWorklogs k =
     (if k = ''AB-1'' then
        [\<lparr>author = me, started = ''2024-01-02T09:00:00.000+0000'', issueId = Some ''10001'',
          timeSpentSeconds = Some 5400, comment = Some exampleComment\<rparr>,
         \<lparr>author = Some \<lparr>emailAddress = Some ''you@example.org''\<rparr>,
          started = ''2024-01-02T10:00:00.000+0000'', issueId = Some ''99999'',
          timeSpentSeconds = Some 3600, comment = None\<rparr>]
      else if k = ''AB-2'' then
        [\<lparr>author = me, started = ''2024-01-01T13:00:00.000+0000'', issueId = Some ''10002'',
          timeSpentSeconds = Some 3600, comment = None\<rparr>,
         \<lparr>author = me, started = ''2024-01-01T09:00:00.000+0000'', issueId = Some ''10002'',
          timeSpentSeconds = Some 7200, comment = None\<rparr>]
      else [])"

text \<open>The timestamps and the renderings of the numbers that occur in the examples.\<close>

definition exampleParseDate :: "string \<Rightarrow> int" where
  "exampleParseDate s =
     (if s = ''2024-01-01T09:00:00.000+0000'' then 1704099600000
      else if s = ''2024-01-01T13:00:00.000+0000'' then 1704114000000
      else if s = ''2024-01-02T09:00:00.000+0000'' then 1704186000000
      else if s = ''2024-01-02T10:00:00.000+0000'' then 1704189600000
      else 0)"

definition exampleNumberToString :: "number \<Rightarrow> string" where
  "exampleNumberToString h =
     (if h = Finite 1 then ''1'' else if h = Finite (3 / 2) then ''1.5''
      else if h = Finite 2 then ''2'' else if h = Finite 3 then ''3''
      else if h = Finite (9 / 2) then ''4.5'' else ''0'')"

definition exampleEnv :: "issue list option \<Rightarrow> env" where
  "exampleEnv found =
     \<lparr>email = ''me@example.org'',
      searchForIssuesUsingJql = (\<lambda>request. Some \<lparr>response_issues = found\<rparr>),
      getIssueWorklog = (\<lambda>request. Some \<lparr>worklogs = exampleWorklogs (issueIdOrKey request)\<rparr>),
      parseDate = exampleParseDate,
      numberToString = exampleNumberToString\<rparr>"

definition january :: js_date where
  "january = \<lparr>toJSON = ''2024-01-01T00:00:00.000Z'', valueOf = 1704067200000\<rparr>"

definition endOfJanuary :: js_date where
  "endOfJanuary = \<lparr>toJSON = ''2024-01-31T00:00:00.000Z'', valueOf = 1706659200000\<rparr>"

text \<open>
  A tracker that knows a third issue, which it returns only when more than 100 results are
  asked for, and the worklog of the user on that issue.
\<close>

definition largerSearch :: "search_request \<Rightarrow> search_response option" where
  "largerSearch request =
     (if maxResults request \<le> 100 then Some \<lparr>response_issues = Some exampleIssues\<rparr>
      else Some \<lparr>response_issues = Some (exampleIssues @ [\<lparr>id' = ''10003'', key = ''AB-3''\<rparr>])\<rparr>)"

definition largerFetch :: "worklog_request \<Rightarrow> worklog_response option" where
  "largerFetch request =
     (if issueIdOrKey request = ''AB-3'' then
        Some \<lparr>worklogs = [\<lparr>author = me, started = ''2024-01-03T09:00:00.000+0000'',
                           issueId = Some ''10003'', timeSpentSeconds = Some 3600, comment = None\<rparr>]\<rparr>
      else Some \<lparr>worklogs = exampleWorklogs (issueIdOrKey request)\<rparr>)"


section \<open>Properties\<close>

subsection \<open>Evaluating numbers\<close>

lemma floor_rat_numeral: "\<lfloor>(numeral a :: rat) / numeral b\<rfloor> = numeral a div numeral b"
  by (metis floor_divide_of_int_eq of_int_numeral)

lemma ceiling_rat_numeral: "\<lceil>(numeral a :: rat) / numeral b\<rceil> = - (- numeral a div numeral b)"
proof -
  have "\<lceil>(of_int (numeral a) :: rat) / of_int (numeral b)\<rceil>
          = - \<lfloor>of_int (- numeral a) / (of_int (numeral b) :: rat)\<rfloor>"
    by (simp add: ceiling_def)
  also have "\<dots> = - (- numeral a div numeral b)"
    by (simp only: floor_divide_of_int_eq)
  finally show ?thesis by simp
qed

lemmas number_eval = roundToDouble_def signedNumber_def roundMagnitude_def roundAt_def floorLog2_def
  roundHalfEven_def pow2_def compute_bitlen floor_rat_numeral ceiling_rat_numeral numberOfInt_def

lemma hoursOf_Some: "timeSpentSeconds w = Some s \<Longrightarrow> hoursOf w = divideBy3600 (numberOfInt s)"
  by (simp add: hoursOf_def)

lemma hoursOf_None: "timeSpentSeconds w = None \<Longrightarrow> hoursOf w = Finite 0"
  by (simp add: hoursOf_def number_eval)

lemmas example_eval = getMyWorklogsSince_def getMyWorklogsForPeriod_def worklogsSince_def
  worklogsForPeriod_def sinceRequest_def periodRequest_def fetchWorklogsPerIssue_def
  normalizeWorklogs_def isMine_def entrySince_def entryForPeriod_def resolveIssue_def
  issueByIdMap_def printSince_def tableForPeriod_def detailedEntries_def dailyEntries_def
  dailyWorklogsOf_def dailyStep_def ensureDay_def addToDay_def datePart_def commaFormat_def
  commentCell_def hoursSum_def hoursTotal_def exampleEnv_def exampleIssues_def exampleWorklogs_def
  exampleParseDate_def exampleNumberToString_def exampleComment_def me_def january_def
  endOfJanuary_def quoted_def hoursOf_Some hoursOf_None number_eval Let_def

subsection \<open>Flattening\<close>

lemma foldl_append_concat: "foldl (\<lambda>acc x. acc @ x) a xs = a @ concat xs"
  by (induction xs arbitrary: a) simp_all

subsection \<open>Calendar arithmetic\<close>

lemma carryDays_in_range:
  "1 \<le> d \<Longrightarrow> d \<le> daysInMonth y m \<Longrightarrow> carryDays y m d = (y, m, d)"
  by (subst carryDays.simps) simp

lemma daysInMonth_pos: "1 \<le> daysInMonth y m"
  by (simp add: daysInMonth_def)

lemma carryDays_zero:
  "carryDays y m 0 = (case previousMonth y m of (y', m') \<Rightarrow> (y', m', daysInMonth y' m'))"
  by (subst carryDays.simps) (simp add: carryDays_in_range daysInMonth_pos split: prod.splits)

lemma makeDay_month_in_range: "0 \<le> m \<Longrightarrow> m \<le> 11 \<Longrightarrow> makeDay y m d = carryDays y m d"
  by (simp add: makeDay_def)

lemma makeDay_previous:
  assumes "0 \<le> m" "m \<le> 11"
  shows "makeDay y (m - 1) 1 = (fst (previousMonth y m), snd (previousMonth y m), 1)"
proof (cases "m = 0")
  case True
  have "makeDay y (- 1) 1 = carryDays (y - 1) 11 1"
    by (simp add: makeDay_def)
  then show ?thesis using True
    by (simp add: previousMonth_def carryDays_in_range daysInMonth_pos)
next
  case False
  then have "makeDay y (m - 1) 1 = carryDays y (m - 1) 1"
    using assms by (simp add: makeDay_month_in_range)
  then show ?thesis using False
    by (simp add: previousMonth_def carryDays_in_range daysInMonth_pos)
qed

lemma makeDay_next:
  assumes "0 \<le> m" "m \<le> 11"
  shows "makeDay y (m + 1) 1 = (fst (nextMonth y m), snd (nextMonth y m), 1)"
proof (cases "m = 11")
  case True
  have "makeDay y 12 1 = carryDays (y + 1) 0 1"
    by (simp add: makeDay_def)
  then show ?thesis using True
    by (simp add: nextMonth_def carryDays_in_range daysInMonth_pos)
next
  case False
  then have "makeDay y (m + 1) 1 = carryDays y (m + 1) 1"
    using assms by (simp add: makeDay_month_in_range)
  then show ?thesis using False
    by (simp add: nextMonth_def carryDays_in_range daysInMonth_pos)
qed

lemma previous_of_next:
  "0 \<le> m \<Longrightarrow> m \<le> 11 \<Longrightarrow>
   previousMonth (fst (nextMonth y m)) (snd (nextMonth y m)) = (y, m)"
  by (simp add: previousMonth_def nextMonth_def)

lemma nextMonth_range:
  "0 \<le> m \<Longrightarrow> m \<le> 11 \<Longrightarrow> 0 \<le> snd (nextMonth y m) \<and> snd (nextMonth y m) \<le> 11"
  by (simp add: nextMonth_def)

lemma previousMonth_range:
  "0 \<le> m \<Longrightarrow> m \<le> 11 \<Longrightarrow> 0 \<le> snd (previousMonth y m) \<and> snd (previousMonth y m) \<le> 11"
  by (simp add: previousMonth_def)

lemma firstDayOfCurrentMonth_eq:
  assumes "validDate now"
  shows "firstDayOfCurrentMonth now
     = \<lparr>fullYear = fullYear now, month = month now, dayOfMonth = 1, timeOfDay = 0\<rparr>"
proof -
  have "makeDay (fullYear now) (month now) 1 = (fullYear now, month now, 1)"
    using assms by (simp add: validDate_def makeDay_month_in_range carryDays_in_range daysInMonth_pos)
  then show ?thesis
    by (simp add: firstDayOfCurrentMonth_def setHoursZero_def setDate_def)
qed

lemma firstDayOfPreviousMonth_eq:
  assumes "validDate now"
  shows "firstDayOfPreviousMonth now
     = \<lparr>fullYear = fst (previousMonth (fullYear now) (month now)),
        month = snd (previousMonth (fullYear now) (month now)), dayOfMonth = 1, timeOfDay = 0\<rparr>"
proof -
  have "makeDay (fullYear now) (month now - 1) 1
          = (fst (previousMonth (fullYear now) (month now)),
             snd (previousMonth (fullYear now) (month now)), 1)"
    using assms by (simp add: validDate_def makeDay_previous)
  then show ?thesis
    by (simp add: firstDayOfPreviousMonth_def firstDayOfCurrentMonth_eq [OF assms]
        getMonth_def setMonth_def)
qed

lemma getLastDayOfMonth_first:
  assumes "0 \<le> m" "m \<le> 11"
  shows "getLastDayOfMonth \<lparr>fullYear = y, month = m, dayOfMonth = 1, timeOfDay = 0\<rparr>
     = \<lparr>fullYear = y, month = m, dayOfMonth = daysInMonth y m, timeOfDay = 0\<rparr>"
proof -
  let ?n = "nextMonth y m"
  have a: "makeDay y (m + 1) 1 = (fst ?n, snd ?n, 1)"
    using assms by (rule makeDay_next)
  have "makeDay (fst ?n) (snd ?n) 0 = carryDays (fst ?n) (snd ?n) 0"
    using nextMonth_range [OF assms] by (simp add: makeDay_month_in_range)
  also have "\<dots> = (y, m, daysInMonth y m)"
    by (simp add: carryDays_zero previous_of_next [OF assms])
  finally have b: "makeDay (fst ?n) (snd ?n) 0 = (y, m, daysInMonth y m)" .
  show ?thesis
    by (simp add: getLastDayOfMonth_def getMonth_def setMonth_def setDate_def a b)
qed

subsection \<open>The fold of the daily summary\<close>

lemma first_seen_snoc:
  "rev (remdups (rev (xs @ [x])))
     = (if x \<in> set xs then rev (remdups (rev xs)) else rev (remdups (rev xs)) @ [x])"
  by simp










subsection \<open>Normalization\<close>

lemma mapM_append:
  "mapM f (xs @ ys) =
     (case mapM f xs of
        Inl err \<Rightarrow> Inl err
      | Inr as \<Rightarrow> (case mapM f ys of Inl err \<Rightarrow> Inl err | Inr bs \<Rightarrow> Inr (as @ bs)))"
  by (induction xs) (auto split: sum.splits)

lemma mapM_concat:
  "(case mapM (mapM f) xss of Inl err \<Rightarrow> Inl err | Inr yss \<Rightarrow> Inr (concat yss))
     = mapM f (concat xss)"
  by (induction xss) (auto simp: mapM_append split: sum.splits)

lemma mapM_Inr_D: "mapM f xs = Inr ys \<Longrightarrow> list_all2 (\<lambda>x y. f x = Inr y) xs ys"
  by (induction xs arbitrary: ys) (auto split: sum.splits)

lemma mapM_Inr_I: "list_all2 (\<lambda>x y. f x = Inr y) xs ys \<Longrightarrow> mapM f xs = Inr ys"
  by (induction rule: list_all2_induct) simp_all

lemma mapM_Inr_iff: "mapM f xs = Inr ys \<longleftrightarrow> list_all2 (\<lambda>x y. f x = Inr y) xs ys"
  using mapM_Inr_D mapM_Inr_I by blast

lemma mapM_map: "mapM (\<lambda>x. g (h x)) xs = mapM g (map h xs)"
  by (induction xs) (simp_all split: sum.splits)

lemma retained_concat:
  "concat (map (\<lambda>r. filter p (worklogs r)) rs) = filter p (concat (map worklogs rs))"
  by (induction rs) simp_all

lemma normalize_flat:
  "normalizeWorklogs e entry is rs =
     (case mapM (entry (issueByIdMap is)) (filter (isMine e) (concat (map worklogs rs))) of
        Inl err \<Rightarrow> Inl err
      | Inr es \<Rightarrow> Inr (sort_key (\<lambda>w. parseDate e (started' w)) es))"
proof -
  let ?E = "entry (issueByIdMap is)"
  let ?F = "\<lambda>r. filter (isMine e) (worklogs r)"
  have a: "mapM (\<lambda>r. mapM ?E (filter (isMine e) (worklogs r))) rs = mapM (mapM ?E) (map ?F rs)"
    by (rule mapM_map)
  have b: "mapM ?E (filter (isMine e) (concat (map worklogs rs)))
             = (case mapM (mapM ?E) (map ?F rs) of
                  Inl err \<Rightarrow> Inl err | Inr yss \<Rightarrow> Inr (concat yss))"
    by (simp only: mapM_concat retained_concat [symmetric])
  show ?thesis
    unfolding normalizeWorklogs_def a b by (simp split: sum.splits)
qed

lemma isMine_iff:
  "isMine e w \<longleftrightarrow> (\<exists>a. author w = Some a \<and> emailAddress a = Some (email e))"
  by (auto simp: isMine_def split: option.splits)

lemma normalize_retained:
  "normalizeWorklogs e entry is (map (\<lambda>r. \<lparr>worklogs = filter (isMine e) (worklogs r)\<rparr>) rs)
     = normalizeWorklogs e entry is rs"
proof -
  have "concat (map worklogs (map (\<lambda>r. \<lparr>worklogs = filter (isMine e) (worklogs r)\<rparr>) rs))
          = filter (isMine e) (concat (map worklogs rs))"
    by (induction rs) simp_all
  then show ?thesis
    by (simp add: normalize_flat)
qed

lemma normalize_env:
  "email e' = email e \<Longrightarrow> parseDate e' = parseDate e \<Longrightarrow>
   normalizeWorklogs e' entry is rs = normalizeWorklogs e entry is rs"
proof -
  assume "email e' = email e" "parseDate e' = parseDate e"
  then have "isMine e' = isMine e" "parseDate e' = parseDate e"
    by (auto simp: isMine_def fun_eq_iff)
  then show ?thesis
    by (simp add: normalizeWorklogs_def split: sum.splits)
qed

lemma fetch_cong:
  "\<forall>i \<in> set is. getIssueWorklog e' \<lparr>issueIdOrKey = key i, startedAfter = valueOf date\<rparr>
                  = getIssueWorklog e \<lparr>issueIdOrKey = key i, startedAfter = valueOf date\<rparr> \<Longrightarrow>
   fetchWorklogsPerIssue e' is date = fetchWorklogsPerIssue e is date"
proof -
  assume a: "\<forall>i \<in> set is. getIssueWorklog e' \<lparr>issueIdOrKey = key i, startedAfter = valueOf date\<rparr>
                  = getIssueWorklog e \<lparr>issueIdOrKey = key i, startedAfter = valueOf date\<rparr>"
  have m: "map (\<lambda>i. getIssueWorklog e' \<lparr>issueIdOrKey = key i, startedAfter = valueOf date\<rparr>) is
          = map (\<lambda>i. getIssueWorklog e \<lparr>issueIdOrKey = key i, startedAfter = valueOf date\<rparr>) is"
    by (rule map_cong) (use a in auto)
  show ?thesis
    by (simp only: fetchWorklogsPerIssue_def m)
qed

lemma worklogsSince_env:
  assumes "email e' = email e" "parseDate e' = parseDate e"
    and "searchForIssuesUsingJql e' (sinceRequest date) = searchForIssuesUsingJql e (sinceRequest date)"
    and "\<forall>r is. searchForIssuesUsingJql e (sinceRequest date) = Some r \<and> response_issues r = Some is \<longrightarrow>
           (\<forall>i \<in> set is. getIssueWorklog e' \<lparr>issueIdOrKey = key i, startedAfter = valueOf date\<rparr>
                  = getIssueWorklog e \<lparr>issueIdOrKey = key i, startedAfter = valueOf date\<rparr>)"
  shows "worklogsSince e' date = worklogsSince e date"
proof (cases "searchForIssuesUsingJql e (sinceRequest date)")
  case None
  then show ?thesis using assms(3) by (simp add: worklogsSince_def)
next
  case (Some r)
  show ?thesis
  proof (cases "response_issues r")
    case None
    then show ?thesis using Some assms(3) by (simp add: worklogsSince_def)
  next
    case (Some "is")
    have "fetchWorklogsPerIssue e' is date = fetchWorklogsPerIssue e is date"
      using assms(4) \<open>searchForIssuesUsingJql e (sinceRequest date) = Some r\<close> Some
      by (intro fetch_cong) blast
    then show ?thesis
      using Some \<open>searchForIssuesUsingJql e (sinceRequest date) = Some r\<close> assms(3)
        normalize_env [OF assms(1,2)]
      by (simp add: worklogsSince_def split: option.splits)
  qed
qed

lemma worklogsForPeriod_env:
  assumes "email e' = email e" "parseDate e' = parseDate e"
    and "searchForIssuesUsingJql e' (periodRequest fromDate toDate)
           = searchForIssuesUsingJql e (periodRequest fromDate toDate)"
    and "\<forall>r is. searchForIssuesUsingJql e (periodRequest fromDate toDate) = Some r
                 \<and> response_issues r = Some is \<longrightarrow>
           (\<forall>i \<in> set is. getIssueWorklog e' \<lparr>issueIdOrKey = key i, startedAfter = valueOf fromDate\<rparr>
                  = getIssueWorklog e \<lparr>issueIdOrKey = key i, startedAfter = valueOf fromDate\<rparr>)"
  shows "worklogsForPeriod e' fromDate toDate = worklogsForPeriod e fromDate toDate"
proof (cases "searchForIssuesUsingJql e (periodRequest fromDate toDate)")
  case None
  then show ?thesis using assms(3) by (simp add: worklogsForPeriod_def)
next
  case (Some r)
  show ?thesis
  proof (cases "response_issues r")
    case None
    then show ?thesis using Some assms(3) by (simp add: worklogsForPeriod_def)
  next
    case (Some "is")
    have "fetchWorklogsPerIssue e' is fromDate = fetchWorklogsPerIssue e is fromDate"
      using assms(4) \<open>searchForIssuesUsingJql e (periodRequest fromDate toDate) = Some r\<close> Some
      by (intro fetch_cong) blast
    then show ?thesis
      using Some \<open>searchForIssuesUsingJql e (periodRequest fromDate toDate) = Some r\<close> assms(3)
        normalize_env [OF assms(1,2)]
      by (simp add: worklogsForPeriod_def split: option.splits)
  qed
qed

subsection \<open>Tables\<close>

lemma hoursTotal_fold: "hoursTotal ws = foldl numberAdd (Finite 0) (map timeSpentInHours ws)"
  by (simp add: hoursTotal_def foldl_map)

lemma printSince_env: "numberToString e' = numberToString e \<Longrightarrow> printSince e' mode ws = printSince e mode ws"
  by (simp add: printSince_def detailedEntries_def commaFormat_def split: WorklogMode.splits)

lemma tableForPeriod_env:
  "numberToString e' = numberToString e \<Longrightarrow> tableForPeriod e' mode ws = tableForPeriod e mode ws"
  by (simp add: tableForPeriod_def detailedEntries_def commaFormat_def hoursSum_def
      split: WorklogMode.splits)

section \<open>The claims\<close>

text \<open>
  C1 (as the code has it): in daily-summary mode, whenever anything is emitted, the
  command-line entry point \<^verbatim>\<open>getMyWorklogsSince\<close> first prints the header line
  \<^verbatim>\<open>Date,Hours,Issues\<close>, and the first row of the document entry point
  \<^verbatim>\<open>getMyWorklogsForPeriod\<close> is \<^verbatim>\<open>["Date", "Hours spent", "Issues"]\<close>. The two
  literals belong to the entry points the other way round than the specification says.
\<close>

theorem daily_headers:
  "(getMyWorklogsSince e date DailySummary = Inr out \<longrightarrow>
      out = [] \<or> hd out = Line ''Date,Hours,Issues'')
   \<and> (getMyWorklogsForPeriod e fromDate toDate DailySummary = Inr rows \<longrightarrow>
      rows = [] \<or> hd rows = [Str ''Date'', Str ''Hours spent'', Str ''Issues''])"
  by (auto simp: getMyWorklogsSince_def getMyWorklogsForPeriod_def printSince_def tableForPeriod_def
      split: sum.splits option.splits)

text \<open>An instance: a search that finds no issue still gives both headers.\<close>

theorem daily_headers_witness:
  "getMyWorklogsSince (exampleEnv (Some [])) january DailySummary
     = Inr [Line ''Date,Hours,Issues'', Csv []]
   \<and> hd [Line ''Date,Hours,Issues'', Csv []] = Line ''Date,Hours,Issues''
   \<and> getMyWorklogsForPeriod (exampleEnv (Some [])) january endOfJanuary DailySummary
     = Inr [[Str ''Date'', Str ''Hours spent'', Str ''Issues''], [Str ''Total'', Str ''0'', Str []]]
   \<and> hd [[Str ''Date'', Str ''Hours spent'', Str ''Issues''], [Str ''Total'', Str ''0'', Str []]]
     = [Str ''Date'', Str ''Hours spent'', Str ''Issues'']"
proof -
  have a: "getMyWorklogsSince (exampleEnv (Some [])) january DailySummary
     = Inr [Line ''Date,Hours,Issues'', Csv []]"
    by (simp add: example_eval)
  have b: "getMyWorklogsForPeriod (exampleEnv (Some [])) january endOfJanuary DailySummary
     = Inr [[Str ''Date'', Str ''Hours spent'', Str ''Issues''], [Str ''Total'', Str ''0'', Str []]]"
    by (simp add: example_eval)
  show ?thesis
    using a b
      daily_headers [of "exampleEnv (Some [])" january "[Line ''Date,Hours,Issues'', Csv []]"
        january endOfJanuary
        "[[Str ''Date'', Str ''Hours spent'', Str ''Issues''], [Str ''Total'', Str ''0'', Str []]]"]
    by blast
qed

text \<open>
  The document entry point on the example tracker: its header reads \<^verbatim>\<open>Hours spent\<close>,
  not \<^verbatim>\<open>Hours\<close>.
\<close>

theorem document_header_counterexample:
  "getMyWorklogsForPeriod (exampleEnv (Some exampleIssues)) january endOfJanuary DailySummary
     = Inr [[Str ''Date'', Str ''Hours spent'', Str ''Issues''],
            [Str ''2024-01-01'', Num (Finite 3), Str ''AB-2''],
            [Str ''2024-01-02'', Num (Finite (3 / 2)), Str ''AB-1''],
            [Str ''Total'', Str ''4,5'', Str []]]"
  by (simp add: example_eval)

text \<open>
  C2 (as the code has it): when normalization yields the entries \<open>ws\<close>, the table of the
  document entry point is the header row, the data rows, and exactly one trailing total row.
  The total cell is a comma-formatted string in both modes: it renders the sum of the hours
  of the entries, added up as doubles from 0 in the order of the entries. It is computed
  from the entries and not from the data rows, which in detailed mode hold the
  comma-formatted hours of the entries and in daily-summary mode the sums of the days. The
  command-line entry point prints the header line and the data rows only: it has no total
  row in either mode.
\<close>

theorem report_table_structure:
  "(worklogsForPeriod e fromDate toDate = Inr (Some ws) \<longrightarrow>
      getMyWorklogsForPeriod e fromDate toDate DailySummary
        = Inr ([[Str ''Date'', Str ''Hours spent'', Str ''Issues'']]
               @ dailyEntries ws
               @ [[Str ''Total'',
                   Str (commaFormat e (foldl numberAdd (Finite 0) (map timeSpentInHours ws))),
                   Str []]])
    \<and> getMyWorklogsForPeriod e fromDate toDate Detailed
        = Inr ([[Str ''Date'', Str ''Issue'', Str ''Hours spent'', Str ''Comment'']]
               @ map (\<lambda>w. [Str (datePart (started' w)), Str (issue w),
                            Str (commaFormat e (timeSpentInHours w)), commentCell (comment' w)]) ws
               @ [[Str ''Total'', Str [],
                   Str (commaFormat e (foldl numberAdd (Finite 0) (map timeSpentInHours ws))),
                   Str []]]))
   \<and> (worklogsSince e date = Inr (Some ws') \<longrightarrow>
      getMyWorklogsSince e date DailySummary
        = Inr [Line ''Date,Hours,Issues'', Csv (dailyEntries ws')]
    \<and> getMyWorklogsSince e date Detailed
        = Inr [Line ''Date,Issue,Hours spent,Comment'',
               Csv (map (\<lambda>w. [Str (datePart (started' w)), Str (issue w),
                                Str (commaFormat e (timeSpentInHours w)), commentCell (comment' w)]) ws')])"
  by (simp add: getMyWorklogsForPeriod_def getMyWorklogsSince_def tableForPeriod_def printSince_def
      hoursSum_def hoursTotal_fold detailedEntries_def)

text \<open>An instance, on the example tracker.\<close>

theorem report_table_structure_witness:
  "worklogsForPeriod (exampleEnv (Some exampleIssues)) january endOfJanuary
     = Inr (Some [\<lparr>started' = ''2024-01-01T09:00:00.000+0000'', issue = ''AB-2'',
                    timeSpentInHours = Finite 2, comment' = Some []\<rparr>,
                  \<lparr>started' = ''2024-01-01T13:00:00.000+0000'', issue = ''AB-2'',
                    timeSpentInHours = Finite 1, comment' = Some []\<rparr>,
                  \<lparr>started' = ''2024-01-02T09:00:00.000+0000'', issue = ''AB-1'',
                    timeSpentInHours = Finite (3 / 2), comment' = Some ''fix!''\<rparr>])
   \<and> getMyWorklogsForPeriod (exampleEnv (Some exampleIssues)) january endOfJanuary DailySummary
     = Inr [[Str ''Date'', Str ''Hours spent'', Str ''Issues''],
            [Str ''2024-01-01'', Num (Finite 3), Str ''AB-2''],
            [Str ''2024-01-02'', Num (Finite (3 / 2)), Str ''AB-1''],
            [Str ''Total'', Str ''4,5'', Str []]]
   \<and> worklogsSince (exampleEnv (Some exampleIssues)) january
     = Inr (Some [\<lparr>started' = ''2024-01-01T09:00:00.000+0000'', issue = ''AB-2'',
                    timeSpentInHours = Finite 2, comment' = None\<rparr>,
                  \<lparr>started' = ''2024-01-01T13:00:00.000+0000'', issue = ''AB-2'',
                    timeSpentInHours = Finite 1, comment' = None\<rparr>,
                  \<lparr>started' = ''2024-01-02T09:00:00.000+0000'', issue = ''AB-1'',
                    timeSpentInHours = Finite (3 / 2), comment' = Some ''fix!''\<rparr>])
   \<and> getMyWorklogsSince (exampleEnv (Some exampleIssues)) january Detailed
     = Inr [Line ''Date,Issue,Hours spent,Comment'',
            Csv [[Str ''2024-01-01'', Str ''AB-2'', Str ''2'', Undefined],
                 [Str ''2024-01-01'', Str ''AB-2'', Str ''1'', Undefined],
                 [Str ''2024-01-02'', Str ''AB-1'', Str ''1,5'', Str ''fix!'']]]"
proof -
  let ?e = "exampleEnv (Some exampleIssues)"
  let ?ws = "[\<lparr>started' = ''2024-01-01T09:00:00.000+0000'', issue = ''AB-2'',
                    timeSpentInHours = Finite 2, comment' = Some []\<rparr>,
                  \<lparr>started' = ''2024-01-01T13:00:00.000+0000'', issue = ''AB-2'',
                    timeSpentInHours = Finite 1, comment' = Some []\<rparr>,
                  \<lparr>started' = ''2024-01-02T09:00:00.000+0000'', issue = ''AB-1'',
                    timeSpentInHours = Finite (3 / 2), comment' = Some ''fix!''\<rparr>]"
  let ?ws' = "[\<lparr>started' = ''2024-01-01T09:00:00.000+0000'', issue = ''AB-2'',
                    timeSpentInHours = Finite 2, comment' = None\<rparr>,
                  \<lparr>started' = ''2024-01-01T13:00:00.000+0000'', issue = ''AB-2'',
                    timeSpentInHours = Finite 1, comment' = None\<rparr>,
                  \<lparr>started' = ''2024-01-02T09:00:00.000+0000'', issue = ''AB-1'',
                    timeSpentInHours = Finite (3 / 2), comment' = Some ''fix!''\<rparr>]"
  have a: "worklogsForPeriod ?e january endOfJanuary = Inr (Some ?ws)"
    by (simp add: example_eval)
  have b: "worklogsSince ?e january = Inr (Some ?ws')"
    by (simp add: example_eval)
  have c: "getMyWorklogsForPeriod ?e january endOfJanuary DailySummary
             = Inr ([[Str ''Date'', Str ''Hours spent'', Str ''Issues'']]
               @ dailyEntries ?ws
               @ [[Str ''Total'',
                   Str (commaFormat ?e (foldl numberAdd (Finite 0) (map timeSpentInHours ?ws))),
                   Str []]])"
    using report_table_structure [of ?e january endOfJanuary ?ws january ?ws'] a by blast
  have d: "getMyWorklogsSince ?e january Detailed
        = Inr [Line ''Date,Issue,Hours spent,Comment'',
               Csv (map (\<lambda>w. [Str (datePart (started' w)), Str (issue w),
                                Str (commaFormat ?e (timeSpentInHours w)), commentCell (comment' w)]) ?ws')]"
    using report_table_structure [of ?e january endOfJanuary ?ws january ?ws'] b by blast
  have c': "[[Str ''Date'', Str ''Hours spent'', Str ''Issues'']]
               @ dailyEntries ?ws
               @ [[Str ''Total'',
                   Str (commaFormat ?e (foldl numberAdd (Finite 0) (map timeSpentInHours ?ws))),
                   Str []]]
            = [[Str ''Date'', Str ''Hours spent'', Str ''Issues''],
            [Str ''2024-01-01'', Num (Finite 3), Str ''AB-2''],
            [Str ''2024-01-02'', Num (Finite (3 / 2)), Str ''AB-1''],
            [Str ''Total'', Str ''4,5'', Str []]]"
    by (simp add: example_eval)
  have d': "[Line ''Date,Issue,Hours spent,Comment'',
               Csv (map (\<lambda>w. [Str (datePart (started' w)), Str (issue w),
                                Str (commaFormat ?e (timeSpentInHours w)), commentCell (comment' w)]) ?ws')]
           = [Line ''Date,Issue,Hours spent,Comment'',
            Csv [[Str ''2024-01-01'', Str ''AB-2'', Str ''2'', Undefined],
                 [Str ''2024-01-01'', Str ''AB-2'', Str ''1'', Undefined],
                 [Str ''2024-01-02'', Str ''AB-1'', Str ''1,5'', Str ''fix!'']]]"
    by (simp add: example_eval)
  show ?thesis
    using a b c d unfolding c' d' by blast
qed

text \<open>
  The command-line entry point in daily-summary mode on the example tracker: two day
  rows and no total row.
\<close>

theorem cli_total_row_counterexample:
  "getMyWorklogsSince (exampleEnv (Some exampleIssues)) january DailySummary
     = Inr [Line ''Date,Hours,Issues'',
            Csv [[Str ''2024-01-01'', Num (Finite 3), Str ''AB-2''],
                 [Str ''2024-01-02'', Num (Finite (3 / 2)), Str ''AB-1'']]]"
  by (simp add: example_eval)

text \<open>
  C3 (as the code has it): for a retained record, the document variant sets the comment
  of the entry to the flattened comment, and to the empty string when the record has no
  comment; the command-line variant sets it to the flattened comment when there is one and
  leaves it \<^verbatim>\<open>undefined\<close> (\<open>None\<close>) when there is none.
\<close>

theorem comment_extraction:
  "(entryForPeriod m w = Inr en \<longrightarrow>
      comment' en = Some (case comment w of None \<Rightarrow> []
                          | Some c \<Rightarrow> extractTextFromJiraDocumentNode c))
   \<and> (entrySince m w = Inr en' \<longrightarrow>
      comment' en' = (case comment w of None \<Rightarrow> None
                      | Some c \<Rightarrow> Some (extractTextFromJiraDocumentNode c)))"
  by (auto simp: entryForPeriod_def entrySince_def split: option.splits)

text \<open>An instance: a record without a comment, and one with the example comment.\<close>

theorem comment_extraction_witness:
  "entryForPeriod (issueByIdMap exampleIssues)
       \<lparr>author = me, started = ''2024-01-01T13:00:00.000+0000'', issueId = Some ''10002'',
        timeSpentSeconds = Some 3600, comment = None\<rparr>
     = Inr \<lparr>started' = ''2024-01-01T13:00:00.000+0000'', issue = ''AB-2'',
            timeSpentInHours = Finite 1, comment' = Some []\<rparr>
   \<and> entrySince (issueByIdMap exampleIssues)
       \<lparr>author = me, started = ''2024-01-02T09:00:00.000+0000'', issueId = Some ''10001'',
        timeSpentSeconds = Some 5400, comment = Some exampleComment\<rparr>
     = Inr \<lparr>started' = ''2024-01-02T09:00:00.000+0000'', issue = ''AB-1'',
            timeSpentInHours = Finite (3 / 2), comment' = Some ''fix!''\<rparr>
   \<and> comment' \<lparr>started' = ''2024-01-01T13:00:00.000+0000'', issue = ''AB-2'',
            timeSpentInHours = Finite 1, comment' = Some []\<rparr> = Some []
   \<and> comment' \<lparr>started' = ''2024-01-02T09:00:00.000+0000'', issue = ''AB-1'',
            timeSpentInHours = Finite (3 / 2), comment' = Some ''fix!''\<rparr>
     = Some (extractTextFromJiraDocumentNode exampleComment)"
proof -
  let ?m = "issueByIdMap exampleIssues"
  let ?w = "\<lparr>author = me, started = ''2024-01-01T13:00:00.000+0000'', issueId = Some ''10002'',
        timeSpentSeconds = Some 3600, comment = None\<rparr>"
  let ?w' = "\<lparr>author = me, started = ''2024-01-02T09:00:00.000+0000'', issueId = Some ''10001'',
        timeSpentSeconds = Some 5400, comment = Some exampleComment\<rparr>"
  let ?en = "\<lparr>started' = ''2024-01-01T13:00:00.000+0000'', issue = ''AB-2'',
            timeSpentInHours = Finite 1, comment' = Some []\<rparr>"
  let ?en' = "\<lparr>started' = ''2024-01-02T09:00:00.000+0000'', issue = ''AB-1'',
            timeSpentInHours = Finite (3 / 2), comment' = Some ''fix!''\<rparr>"
  have a: "entryForPeriod ?m ?w = Inr ?en"
    by (simp add: entryForPeriod_def resolveIssue_def issueByIdMap_def exampleIssues_def hoursOf_def number_eval)
  have b: "entrySince ?m ?w' = Inr ?en'"
    by (simp add: entrySince_def resolveIssue_def issueByIdMap_def exampleIssues_def hoursOf_def
        exampleComment_def number_eval)
  have c: "comment' ?en = Some (case comment ?w of None \<Rightarrow> []
                          | Some c \<Rightarrow> extractTextFromJiraDocumentNode c)"
    using comment_extraction [of ?m ?w ?en] a by blast
  have d: "comment' ?en' = (case comment ?w' of None \<Rightarrow> None
                      | Some c \<Rightarrow> Some (extractTextFromJiraDocumentNode c))"
    using comment_extraction [of ?m ?w' _ ?en'] b by blast
  show ?thesis
    using a b c d by simp
qed

text \<open>
  The entries of the command-line variant on the example tracker: the two records without
  a comment give entries whose comment is absent, not the empty string.
\<close>

theorem absent_comment_counterexample:
  "worklogsSince (exampleEnv (Some exampleIssues)) january
     = Inr (Some [\<lparr>started' = ''2024-01-01T09:00:00.000+0000'', issue = ''AB-2'',
                    timeSpentInHours = Finite 2, comment' = None\<rparr>,
                  \<lparr>started' = ''2024-01-01T13:00:00.000+0000'', issue = ''AB-2'',
                    timeSpentInHours = Finite 1, comment' = None\<rparr>,
                  \<lparr>started' = ''2024-01-02T09:00:00.000+0000'', issue = ''AB-1'',
                    timeSpentInHours = Finite (3 / 2), comment' = Some ''fix!''\<rparr>])"
  by (simp add: example_eval)

text \<open>
  C4 (as the code has it): for every calendar date of invocation, if the day of the
  month is 16 or later the report period starts on the first day of the current month, and
  otherwise on the first day of the previous month; in both cases it ends on the last day
  of the month it starts in (both at local midnight). The end is never the day of
  invocation unless that is the last day of its month.
\<close>

theorem report_period:
  assumes "validDate now"
  shows "(15 < dayOfMonth now \<longrightarrow>
            reportDateStart now
              = \<lparr>fullYear = fullYear now, month = month now, dayOfMonth = 1, timeOfDay = 0\<rparr>
          \<and> reportDateEnd now
              = \<lparr>fullYear = fullYear now, month = month now,
                 dayOfMonth = daysInMonth (fullYear now) (month now), timeOfDay = 0\<rparr>)
       \<and> (dayOfMonth now \<le> 15 \<longrightarrow>
            (case previousMonth (fullYear now) (month now) of (y, m) \<Rightarrow>
               reportDateStart now = \<lparr>fullYear = y, month = m, dayOfMonth = 1, timeOfDay = 0\<rparr>
             \<and> reportDateEnd now
                 = \<lparr>fullYear = y, month = m, dayOfMonth = daysInMonth y m, timeOfDay = 0\<rparr>))"
proof -
  have r: "0 \<le> month now" "month now \<le> 11"
    using assms by (simp_all add: validDate_def)
  show ?thesis
    using previousMonth_range [OF r, of "fullYear now"]
    by (simp add: reportDateStart_def reportDateEnd_def getDate_def
        firstDayOfCurrentMonth_eq [OF assms] firstDayOfPreviousMonth_eq [OF assms]
        getLastDayOfMonth_first r split: prod.splits)
qed

text \<open>An instance: the 15th and the 16th of March 2024.\<close>

theorem report_period_witness:
  "validDate \<lparr>fullYear = 2024, month = 2, dayOfMonth = 15, timeOfDay = 34200000\<rparr>
   \<and> reportDateStart \<lparr>fullYear = 2024, month = 2, dayOfMonth = 15, timeOfDay = 34200000\<rparr>
       = \<lparr>fullYear = 2024, month = 1, dayOfMonth = 1, timeOfDay = 0\<rparr>
   \<and> reportDateEnd \<lparr>fullYear = 2024, month = 2, dayOfMonth = 15, timeOfDay = 34200000\<rparr>
       = \<lparr>fullYear = 2024, month = 1, dayOfMonth = 29, timeOfDay = 0\<rparr>
   \<and> validDate \<lparr>fullYear = 2024, month = 2, dayOfMonth = 16, timeOfDay = 34200000\<rparr>
   \<and> reportDateStart \<lparr>fullYear = 2024, month = 2, dayOfMonth = 16, timeOfDay = 34200000\<rparr>
       = \<lparr>fullYear = 2024, month = 2, dayOfMonth = 1, timeOfDay = 0\<rparr>
   \<and> reportDateEnd \<lparr>fullYear = 2024, month = 2, dayOfMonth = 16, timeOfDay = 34200000\<rparr>
       = \<lparr>fullYear = 2024, month = 2, dayOfMonth = 31, timeOfDay = 0\<rparr>"
proof -
  let ?a = "\<lparr>fullYear = 2024, month = 2, dayOfMonth = 15, timeOfDay = 34200000\<rparr>"
  let ?b = "\<lparr>fullYear = 2024, month = 2, dayOfMonth = 16, timeOfDay = 34200000\<rparr>"
  have a: "validDate ?a"
    by (simp add: validDate_def daysInMonth_def)
  have b: "validDate ?b"
    by (simp add: validDate_def daysInMonth_def)
  show ?thesis
    using a b report_period [OF a] report_period [OF b]
    by (simp add: previousMonth_def daysInMonth_def isLeapYear_def)
qed

text \<open>
  Invoked on 16 January 2024, the period ends on 31 January, not on the day of invocation.
\<close>

theorem period_end_counterexample:
  "validDate \<lparr>fullYear = 2024, month = 0, dayOfMonth = 16, timeOfDay = 34200000\<rparr>
   \<and> reportDateStart \<lparr>fullYear = 2024, month = 0, dayOfMonth = 16, timeOfDay = 34200000\<rparr>
       = \<lparr>fullYear = 2024, month = 0, dayOfMonth = 1, timeOfDay = 0\<rparr>
   \<and> reportDateEnd \<lparr>fullYear = 2024, month = 0, dayOfMonth = 16, timeOfDay = 34200000\<rparr>
       = \<lparr>fullYear = 2024, month = 0, dayOfMonth = 31, timeOfDay = 0\<rparr>
   \<and> dayOfMonth (reportDateEnd \<lparr>fullYear = 2024, month = 0, dayOfMonth = 16, timeOfDay = 34200000\<rparr>)
       \<noteq> dayOfMonth \<lparr>fullYear = 2024, month = 0, dayOfMonth = 16, timeOfDay = 34200000\<rparr>"
  by code_simp




text \<open>
  C6: for every (finite, hence acyclic) node tree the flattener returns the flattenings of
  the children, concatenated in order, followed by the node's own text; an absent text
  contributes the empty string, an absent child list counts as no children, and a node
  without children returns exactly its own text.
\<close>

theorem flattener_children_then_own_text:
  "extractTextFromJiraDocumentNode (Document c t)
     = concat (map extractTextFromJiraDocumentNode (case c of None \<Rightarrow> [] | Some cs \<Rightarrow> cs))
       @ (case t of None \<Rightarrow> [] | Some s \<Rightarrow> s)
   \<and> extractTextFromJiraDocumentNode (Document (Some cs) (Some s))
     = concat (map extractTextFromJiraDocumentNode cs) @ s
   \<and> extractTextFromJiraDocumentNode (Document (Some cs) None)
     = concat (map extractTextFromJiraDocumentNode cs)
   \<and> extractTextFromJiraDocumentNode (Document None (Some s)) = s
   \<and> extractTextFromJiraDocumentNode (Document (Some []) (Some s)) = s
   \<and> extractTextFromJiraDocumentNode (Document None None) = []"
  by (simp add: foldl_append_concat)

text \<open>
  C7: whatever the payloads and the order of the records in them, the entries that
  normalization returns are non-decreasing in the parsed \<^verbatim>\<open>started\<close> timestamp; so are
  the entries of both entry points.
\<close>

theorem normalized_entries_sorted:
  "(normalizeWorklogs e entry is rs = Inr es \<longrightarrow> sorted (map (\<lambda>w. parseDate e (started' w)) es))
   \<and> (worklogsSince e date = Inr (Some ws) \<longrightarrow>
        sorted (map (\<lambda>w. parseDate e (started' w)) ws))
   \<and> (worklogsForPeriod e fromDate toDate = Inr (Some ws') \<longrightarrow>
        sorted (map (\<lambda>w. parseDate e (started' w)) ws'))"
proof -
  have a: "sorted (map (\<lambda>w. parseDate e (started' w)) xs)"
    if "normalizeWorklogs e entry' is' rs' = Inr xs" for entry' is' rs' xs
    using that by (auto simp: normalize_flat split: sum.splits)
  show ?thesis
    by (auto simp: worklogsSince_def worklogsForPeriod_def dest: a split: option.splits sum.splits)
qed

text \<open>An instance: the example tracker returns the worklogs of \<open>AB-2\<close> out of order.\<close>

theorem normalized_entries_sorted_witness:
  "worklogsSince (exampleEnv (Some exampleIssues)) january
     = Inr (Some [\<lparr>started' = ''2024-01-01T09:00:00.000+0000'', issue = ''AB-2'',
                    timeSpentInHours = Finite 2, comment' = None\<rparr>,
                  \<lparr>started' = ''2024-01-01T13:00:00.000+0000'', issue = ''AB-2'',
                    timeSpentInHours = Finite 1, comment' = None\<rparr>,
                  \<lparr>started' = ''2024-01-02T09:00:00.000+0000'', issue = ''AB-1'',
                    timeSpentInHours = Finite (3 / 2), comment' = Some ''fix!''\<rparr>])
   \<and> sorted [1704099600000, 1704114000000, 1704186000000 :: int]"
proof -
  let ?e = "exampleEnv (Some exampleIssues)"
  let ?ws = "[\<lparr>started' = ''2024-01-01T09:00:00.000+0000'', issue = ''AB-2'',
                    timeSpentInHours = Finite 2, comment' = None\<rparr>,
                  \<lparr>started' = ''2024-01-01T13:00:00.000+0000'', issue = ''AB-2'',
                    timeSpentInHours = Finite 1, comment' = None\<rparr>,
                  \<lparr>started' = ''2024-01-02T09:00:00.000+0000'', issue = ''AB-1'',
                    timeSpentInHours = Finite (3 / 2), comment' = Some ''fix!''\<rparr>]"
  have a: "worklogsSince ?e january = Inr (Some ?ws)"
    by (simp add: example_eval)
  have b: "sorted (map (\<lambda>w. parseDate ?e (started' w)) ?ws)"
    using normalized_entries_sorted [of ?e _ _ _ _ january ?ws] a by blast
  have c: "map (\<lambda>w. parseDate ?e (started' w)) ?ws
             = [1704099600000, 1704114000000, 1704186000000]"
    by (simp add: exampleEnv_def exampleParseDate_def)
  show ?thesis
    using a b unfolding c by blast
qed

text \<open>
  C8: a record is retained exactly when its author is present and its e-mail address is
  the configured one. Normalization succeeds with the entries \<open>es\<close> exactly when every
  retained record yields an entry and \<open>es\<close> is those entries, one per retained record,
  sorted; and removing every other record from the payloads beforehand changes nothing, so
  such a record raises no error even when its issue cannot be resolved.
\<close>

theorem only_own_worklogs_retained:
  "(isMine e w \<longleftrightarrow> (\<exists>a. author w = Some a \<and> emailAddress a = Some (email e)))
   \<and> (normalizeWorklogs e entry is rs = Inr es \<longleftrightarrow>
        (\<exists>es0. list_all2 (\<lambda>w en. entry (issueByIdMap is) w = Inr en)
                  (filter (isMine e) (concat (map worklogs rs))) es0
             \<and> es = sort_key (\<lambda>w. parseDate e (started' w)) es0))
   \<and> normalizeWorklogs e entry is (map (\<lambda>r. \<lparr>worklogs = filter (isMine e) (worklogs r)\<rparr>) rs)
       = normalizeWorklogs e entry is rs"
proof -
  have "normalizeWorklogs e entry is rs = Inr es \<longleftrightarrow>
        (\<exists>es0. mapM (entry (issueByIdMap is)) (filter (isMine e) (concat (map worklogs rs))) = Inr es0
             \<and> es = sort_key (\<lambda>w. parseDate e (started' w)) es0)"
    by (auto simp: normalize_flat split: sum.splits)
  then show ?thesis
    by (simp add: isMine_iff normalize_retained mapM_Inr_iff)
qed

text \<open>
  An instance: the colleague's record on \<open>AB-1\<close> would raise on its unknown issue, is not
  retained, and normalization returns the three entries of the user.
\<close>

theorem only_own_worklogs_retained_witness:
  "normalizeWorklogs (exampleEnv (Some exampleIssues)) entrySince exampleIssues
       [\<lparr>worklogs = exampleWorklogs ''AB-1''\<rparr>, \<lparr>worklogs = exampleWorklogs ''AB-2''\<rparr>]
     = Inr [\<lparr>started' = ''2024-01-01T09:00:00.000+0000'', issue = ''AB-2'',
              timeSpentInHours = Finite 2, comment' = None\<rparr>,
            \<lparr>started' = ''2024-01-01T13:00:00.000+0000'', issue = ''AB-2'',
              timeSpentInHours = Finite 1, comment' = None\<rparr>,
            \<lparr>started' = ''2024-01-02T09:00:00.000+0000'', issue = ''AB-1'',
              timeSpentInHours = Finite (3 / 2), comment' = Some ''fix!''\<rparr>]
   \<and> entrySince (issueByIdMap exampleIssues) (exampleWorklogs ''AB-1'' ! 1) = Inl TypeError
   \<and> \<not> isMine (exampleEnv (Some exampleIssues)) (exampleWorklogs ''AB-1'' ! 1)
   \<and> (\<exists>es0. list_all2 (\<lambda>w en. entrySince (issueByIdMap exampleIssues) w = Inr en)
                (filter (isMine (exampleEnv (Some exampleIssues)))
                   (concat (map worklogs
                      [\<lparr>worklogs = exampleWorklogs ''AB-1''\<rparr>, \<lparr>worklogs = exampleWorklogs ''AB-2''\<rparr>])))
                es0
            \<and> length es0 = 3)"
proof -
  let ?e = "exampleEnv (Some exampleIssues)"
  let ?rs = "[\<lparr>worklogs = exampleWorklogs ''AB-1''\<rparr>, \<lparr>worklogs = exampleWorklogs ''AB-2''\<rparr>]"
  let ?es = "[\<lparr>started' = ''2024-01-01T09:00:00.000+0000'', issue = ''AB-2'',
              timeSpentInHours = Finite 2, comment' = None\<rparr>,
            \<lparr>started' = ''2024-01-01T13:00:00.000+0000'', issue = ''AB-2'',
              timeSpentInHours = Finite 1, comment' = None\<rparr>,
            \<lparr>started' = ''2024-01-02T09:00:00.000+0000'', issue = ''AB-1'',
              timeSpentInHours = Finite (3 / 2), comment' = Some ''fix!''\<rparr>]"
  have a: "normalizeWorklogs ?e entrySince exampleIssues ?rs = Inr ?es"
    by (simp add: example_eval)
  have b: "entrySince (issueByIdMap exampleIssues) (exampleWorklogs ''AB-1'' ! 1) = Inl TypeError"
    by (simp add: entrySince_def resolveIssue_def issueByIdMap_def exampleIssues_def
        exampleWorklogs_def)
  have c: "\<not> isMine ?e (exampleWorklogs ''AB-1'' ! 1)"
    by (simp add: isMine_def exampleEnv_def exampleWorklogs_def)
  obtain es0 where
    d: "list_all2 (\<lambda>w en. entrySince (issueByIdMap exampleIssues) w = Inr en)
          (filter (isMine ?e) (concat (map worklogs ?rs))) es0"
    and e: "?es = sort_key (\<lambda>w. parseDate ?e (started' w)) es0"
    using only_own_worklogs_retained [of ?e _ entrySince exampleIssues ?rs ?es] a by blast
  have "length es0 = length ?es"
    unfolding e by simp
  then have "length es0 = 3"
    by simp
  then show ?thesis
    using a b c d by blast
qed

text \<open>
  C9: if the search response has no issues list, the command-line entry point resolves
  having printed nothing, and the document entry point returns the empty row matrix, in
  either mode.
\<close>

theorem no_issues_no_report:
  "(searchForIssuesUsingJql e (sinceRequest date) = Some r \<and> response_issues r = None \<longrightarrow>
      getMyWorklogsSince e date mode = Inr [])
   \<and> (searchForIssuesUsingJql e (periodRequest fromDate toDate) = Some r' \<and> response_issues r' = None \<longrightarrow>
      getMyWorklogsForPeriod e fromDate toDate mode = Inr [])"
  by (simp add: getMyWorklogsSince_def worklogsSince_def getMyWorklogsForPeriod_def
      worklogsForPeriod_def)

text \<open>An instance: the example tracker without an issues list.\<close>

theorem no_issues_no_report_witness:
  "searchForIssuesUsingJql (exampleEnv None) (sinceRequest january) = Some \<lparr>response_issues = None\<rparr>
   \<and> searchForIssuesUsingJql (exampleEnv None) (periodRequest january endOfJanuary)
       = Some \<lparr>response_issues = None\<rparr>
   \<and> response_issues \<lparr>response_issues = None\<rparr> = None
   \<and> getMyWorklogsSince (exampleEnv None) january Detailed = Inr []
   \<and> getMyWorklogsForPeriod (exampleEnv None) january endOfJanuary DailySummary = Inr []"
proof -
  let ?r = "\<lparr>response_issues = None\<rparr>"
  have a: "searchForIssuesUsingJql (exampleEnv None) (sinceRequest january) = Some ?r"
    by (simp add: exampleEnv_def)
  have b: "searchForIssuesUsingJql (exampleEnv None) (periodRequest january endOfJanuary) = Some ?r"
    by (simp add: exampleEnv_def)
  have c: "response_issues ?r = None"
    by simp
  show ?thesis
    using a b c
      no_issues_no_report [of "exampleEnv None" january ?r Detailed january endOfJanuary ?r]
      no_issues_no_report [of "exampleEnv None" january ?r DailySummary january endOfJanuary ?r]
    by blast
qed

text \<open>
  C10: both entry points ask the search for at most 100 results, and their result depends
  on the search operation only through its response to that one request, and on the
  worklog operation only through its responses for the issues of that response. Whatever
  the tracker would return to another request, and whatever worklogs it holds for other
  issues, changes neither the report nor turns it into an error.
\<close>

theorem single_search_of_100:
  "maxResults (sinceRequest date) = 100 \<and> maxResults (periodRequest fromDate toDate) = 100
   \<and> (search' (sinceRequest date) = searchForIssuesUsingJql e (sinceRequest date)
        \<and> (\<forall>r is. searchForIssuesUsingJql e (sinceRequest date) = Some r
                    \<and> response_issues r = Some is \<longrightarrow>
              (\<forall>i \<in> set is. fetch' \<lparr>issueIdOrKey = key i, startedAfter = valueOf date\<rparr>
                     = getIssueWorklog e \<lparr>issueIdOrKey = key i, startedAfter = valueOf date\<rparr>))
       \<longrightarrow> getMyWorklogsSince (e\<lparr>searchForIssuesUsingJql := search', getIssueWorklog := fetch'\<rparr>) date mode
             = getMyWorklogsSince e date mode)
   \<and> (search' (periodRequest fromDate toDate) = searchForIssuesUsingJql e (periodRequest fromDate toDate)
        \<and> (\<forall>r is. searchForIssuesUsingJql e (periodRequest fromDate toDate) = Some r
                    \<and> response_issues r = Some is \<longrightarrow>
              (\<forall>i \<in> set is. fetch' \<lparr>issueIdOrKey = key i, startedAfter = valueOf fromDate\<rparr>
                     = getIssueWorklog e \<lparr>issueIdOrKey = key i, startedAfter = valueOf fromDate\<rparr>))
       \<longrightarrow> getMyWorklogsForPeriod (e\<lparr>searchForIssuesUsingJql := search', getIssueWorklog := fetch'\<rparr>)
               fromDate toDate mode
             = getMyWorklogsForPeriod e fromDate toDate mode)"
proof -
  let ?e' = "e\<lparr>searchForIssuesUsingJql := search', getIssueWorklog := fetch'\<rparr>"
  have a: "getMyWorklogsSince ?e' date mode = getMyWorklogsSince e date mode"
    if "search' (sinceRequest date) = searchForIssuesUsingJql e (sinceRequest date)"
      and "\<forall>r is. searchForIssuesUsingJql e (sinceRequest date) = Some r
                    \<and> response_issues r = Some is \<longrightarrow>
              (\<forall>i \<in> set is. fetch' \<lparr>issueIdOrKey = key i, startedAfter = valueOf date\<rparr>
                     = getIssueWorklog e \<lparr>issueIdOrKey = key i, startedAfter = valueOf date\<rparr>)"
  proof -
    have "worklogsSince ?e' date = worklogsSince e date"
      using that by (intro worklogsSince_env) simp_all
    moreover have "printSince ?e' mode ws = printSince e mode ws" for ws
      by (rule printSince_env) simp
    ultimately show ?thesis
      by (simp add: getMyWorklogsSince_def split: sum.splits option.splits)
  qed
  have b: "getMyWorklogsForPeriod ?e' fromDate toDate mode = getMyWorklogsForPeriod e fromDate toDate mode"
    if "search' (periodRequest fromDate toDate) = searchForIssuesUsingJql e (periodRequest fromDate toDate)"
      and "\<forall>r is. searchForIssuesUsingJql e (periodRequest fromDate toDate) = Some r
                    \<and> response_issues r = Some is \<longrightarrow>
              (\<forall>i \<in> set is. fetch' \<lparr>issueIdOrKey = key i, startedAfter = valueOf fromDate\<rparr>
                     = getIssueWorklog e \<lparr>issueIdOrKey = key i, startedAfter = valueOf fromDate\<rparr>)"
  proof -
    have "worklogsForPeriod ?e' fromDate toDate = worklogsForPeriod e fromDate toDate"
      using that by (intro worklogsForPeriod_env) simp_all
    moreover have "tableForPeriod ?e' mode ws = tableForPeriod e mode ws" for ws
      by (rule tableForPeriod_env) simp
    ultimately show ?thesis
      by (simp add: getMyWorklogsForPeriod_def split: sum.splits option.splits)
  qed
  have c: "maxResults (sinceRequest date) = 100" "maxResults (periodRequest fromDate toDate) = 100"
    by (simp_all add: sinceRequest_def periodRequest_def)
  show ?thesis
    using a b c by blast
qed

text \<open>
  An instance: the third issue of the larger tracker and its worklog appear in neither
  report.
\<close>

theorem single_search_of_100_witness:
  "largerSearch (sinceRequest january)
     = searchForIssuesUsingJql (exampleEnv (Some exampleIssues)) (sinceRequest january)
   \<and> largerSearch (periodRequest january endOfJanuary)
     = searchForIssuesUsingJql (exampleEnv (Some exampleIssues)) (periodRequest january endOfJanuary)
   \<and> largerSearch ((sinceRequest january)\<lparr>maxResults := 200\<rparr>)
     \<noteq> searchForIssuesUsingJql (exampleEnv (Some exampleIssues)) ((sinceRequest january)\<lparr>maxResults := 200\<rparr>)
   \<and> getMyWorklogsSince
        ((exampleEnv (Some exampleIssues))\<lparr>searchForIssuesUsingJql := largerSearch,
                                           getIssueWorklog := largerFetch\<rparr>) january Detailed
     = getMyWorklogsSince (exampleEnv (Some exampleIssues)) january Detailed
   \<and> getMyWorklogsForPeriod
        ((exampleEnv (Some exampleIssues))\<lparr>searchForIssuesUsingJql := largerSearch,
                                           getIssueWorklog := largerFetch\<rparr>)
        january endOfJanuary DailySummary
     = getMyWorklogsForPeriod (exampleEnv (Some exampleIssues)) january endOfJanuary DailySummary"
proof -
  let ?e = "exampleEnv (Some exampleIssues)"
  have a: "largerSearch (sinceRequest january) = searchForIssuesUsingJql ?e (sinceRequest january)"
    by (simp add: largerSearch_def exampleEnv_def sinceRequest_def)
  have b: "largerSearch (periodRequest january endOfJanuary)
             = searchForIssuesUsingJql ?e (periodRequest january endOfJanuary)"
    by (simp add: largerSearch_def exampleEnv_def periodRequest_def)
  have c: "largerSearch ((sinceRequest january)\<lparr>maxResults := 200\<rparr>)
     \<noteq> searchForIssuesUsingJql ?e ((sinceRequest january)\<lparr>maxResults := 200\<rparr>)"
    by (simp add: largerSearch_def exampleEnv_def sinceRequest_def exampleIssues_def)
  have d: "\<forall>r is. searchForIssuesUsingJql ?e q = Some r \<and> response_issues r = Some is \<longrightarrow>
              (\<forall>i \<in> set is. largerFetch \<lparr>issueIdOrKey = key i, startedAfter = t\<rparr>
                     = getIssueWorklog ?e \<lparr>issueIdOrKey = key i, startedAfter = t\<rparr>)" for q t
    by (auto simp: exampleEnv_def exampleIssues_def largerFetch_def)
  show ?thesis
    using a b c d [of "sinceRequest january" "valueOf january"]
      d [of "periodRequest january endOfJanuary" "valueOf january"]
      single_search_of_100 [of january january endOfJanuary largerSearch ?e largerFetch Detailed]
      single_search_of_100 [of january january endOfJanuary largerSearch ?e largerFetch DailySummary]
    by blast
qed

end
